theory Spec2Isabelle
  imports
    Complex_Main
    "HOL-Library.Multiset"
    "HOL-Library.Char_ord"
    "HOL-Library.List_Lexorder"
begin

text \<open>
  A model of \<^verbatim>\<open>Program.cpp\<close>, the reader of Letterboxd diary exports: the field trimmer,
  the CSV line parser, the safe numeric conversion, the diary reader, the star rendering
  and the ordering and statistics steps of \<^verbatim>\<open>main\<close>, each function under the name it has in
  the source. The functions of the C++ library that the program calls (\<^verbatim>\<open>std::stod\<close>,
  \<^verbatim>\<open>std::sort\<close>, the string searches, \<^verbatim>\<open>getline\<close>) are modelled by what the language
  standard says of them. The properties follow the definitions.
\<close>

section \<open>Strings and the Field Trimmer\<close>

text \<open>
  A \<^verbatim>\<open>std::string\<close> is a list of bytes, a position in it a natural number.
\<close>

text \<open>\<^verbatim>\<open>str.find_first_not_of(chars)\<close>: the first position whose character is not one
  of \<open>chars\<close>, \<open>None\<close> when there is none (the library then returns \<^verbatim>\<open>npos\<close>).\<close>

fun find_first_not_of :: "string \<Rightarrow> string \<Rightarrow> nat option" where
  "find_first_not_of [] chars = None"
| "find_first_not_of (c # cs) chars =
     (if c \<in> set chars then map_option Suc (find_first_not_of cs chars) else Some 0)"

text \<open>\<^verbatim>\<open>str.find_last_not_of(chars)\<close>: the last such position.\<close>

fun find_last_not_of :: "string \<Rightarrow> string \<Rightarrow> nat option" where
  "find_last_not_of [] chars = None"
| "find_last_not_of (c # cs) chars =
     (case find_last_not_of cs chars of
        Some i \<Rightarrow> Some (Suc i)
      | None \<Rightarrow> if c \<in> set chars then None else Some 0)"

text \<open>\<^verbatim>\<open>str.substr(pos, n)\<close> for \<open>pos \<le> length str\<close> (the only way \<open>trim\<close> calls it):
  at most \<open>n\<close> characters from position \<open>pos\<close>.\<close>

definition substr :: "string \<Rightarrow> nat \<Rightarrow> nat \<Rightarrow> string" where
  "substr str pos n = take n (drop pos str)"

text \<open>The characters \<^verbatim>\<open>" \t\r\n\""\<close> that \<open>trim\<close> strips: space, tab, carriage return,
  line feed and the double quote.\<close>

definition trim_chars :: string where
  "trim_chars = [CHR '' '', CHR 0x09, CHR 0x0D, CHR 0x0A, CHR 0x22]"

text \<open>
  \<^verbatim>\<open>trim\<close>. When \<open>first\<close> is found, so is \<open>last\<close>, and \<open>first \<le> last\<close>
  (lemma \<open>find_first_last\<close> below), so the unsigned subtraction \<open>last - first\<close>
  never wraps. The branch where \<open>last\<close> is \<^verbatim>\<open>npos\<close> (\<open>2 ^ 64 - 1\<close> on a 64-bit
  build) is written out as the code would compute it, and is never taken.
\<close>

definition trim :: "string \<Rightarrow> string" where
  "trim str =
     (case find_first_not_of str trim_chars of
        None \<Rightarrow> []
      | Some first \<Rightarrow>
          (case find_last_not_of str trim_chars of
             Some last' \<Rightarrow> substr str first (last' - first + 1)
           | None \<Rightarrow> substr str first ((2 ^ 64 - 1 - first + 1) mod 2 ^ 64)))"

section \<open>CSV Line Parser\<close>

text \<open>
  The loop of \<^verbatim>\<open>parseCSVLine\<close> over the characters of the line, with its three local
  variables: the fields pushed so far, the field being accumulated and the quote state.
  When the characters are used up the last field is trimmed and pushed.
\<close>

fun parseLoop :: "string \<Rightarrow> string list \<Rightarrow> string \<Rightarrow> bool \<Rightarrow> string list" where
  "parseLoop [] fields field inQuotes = fields @ [trim field]"
| "parseLoop (c # cs) fields field inQuotes =
     (if c = CHR 0x22 then parseLoop cs fields field (\<not> inQuotes)
      else if c = CHR '','' \<and> \<not> inQuotes then parseLoop cs (fields @ [trim field]) [] inQuotes
      else parseLoop cs fields (field @ [c]) inQuotes)"

definition parseCSVLine :: "string \<Rightarrow> string list" where
  "parseCSVLine line = parseLoop line [] [] False"

section \<open>Floating-point values and the library's \<^verbatim>\<open>stod\<close>\<close>

text \<open>
  A \<^verbatim>\<open>double\<close> is a binary64 number: finite, an infinity or a NaN. A finite value is
  modelled by the rational number it denotes, and the two zeros are one value (they
  compare equal, and no property below prints a zero).
\<close>

datatype double = Finite rat | PosInf | NegInf | NaN

subsection \<open>Rounding to binary64\<close>

text \<open>
  Every conversion and every arithmetic result is the binary64 number nearest to the
  exact value, ties to the even significand. \<open>floor_log2 a\<close> is the exponent \<open>e\<close> of a
  positive \<open>a\<close>, with \<open>2 ^ e \<le> a < 2 ^ (e + 1)\<close>; a binary64 number of that exponent is a
  multiple of \<open>2 ^ (e - 52)\<close>, and of \<open>2 ^ -1074\<close> when it is subnormal.
\<close>

fun bit_length :: "nat \<Rightarrow> nat" where
  "bit_length n = (if n = 0 then 0 else Suc (bit_length (n div 2)))"

definition floor_log2 :: "rat \<Rightarrow> int" where
  "floor_log2 a =
     (if 1 \<le> a then int (bit_length (nat \<lfloor>a\<rfloor>)) - 1
      else - int (bit_length (nat (\<lceil>1 / a\<rceil> - 1))))"

definition round_half_even :: "rat \<Rightarrow> int" where
  "round_half_even m =
     (let f = \<lfloor>m\<rfloor>; d = m - of_int f
      in if d < 1 / 2 then f else if 1 / 2 < d then f + 1 else if even f then f else f + 1)"

definition pow2 :: "int \<Rightarrow> rat" where
  "pow2 k = (if 0 \<le> k then 2 ^ nat k else 1 / 2 ^ nat (- k))"

text \<open>The multiple of \<open>2 ^ k\<close> nearest to \<open>a\<close>.\<close>

definition quantize :: "rat \<Rightarrow> int \<Rightarrow> rat" where
  "quantize a k = of_int (round_half_even (a / pow2 k)) * pow2 k"

text \<open>A positive \<open>a\<close> rounded to 53 significant bits with no bound on the exponent
  (\<open>round_normal\<close>), and rounded as binary64 does, subnormal numbers included
  (\<open>round_binary64\<close>).\<close>

definition round_normal :: "rat \<Rightarrow> rat" where
  "round_normal a = quantize a (floor_log2 a - 52)"

definition round_binary64 :: "rat \<Rightarrow> rat" where
  "round_binary64 a = quantize a (max (floor_log2 a - 52) (- 1074))"

text \<open>The \<^verbatim>\<open>double\<close> an exact value is rounded to; it is an infinity from
  \<open>2 ^ 1024 - 2 ^ 970\<close> on.\<close>

definition to_double :: "rat \<Rightarrow> double" where
  "to_double q =
     (if q = 0 then Finite 0
      else
        let r = round_binary64 \<bar>q\<bar> in
        if 2 ^ 1024 \<le> r then (if q < 0 then NegInf else PosInf)
        else Finite (if q < 0 then - r else r))"

subsection \<open>Comparisons and arithmetic\<close>

text \<open>The comparisons \<^verbatim>\<open><\<close>, \<^verbatim>\<open>>\<close> and \<^verbatim>\<open>==\<close> of the language: every comparison with
  a NaN is false.\<close>

fun double_lt :: "double \<Rightarrow> double \<Rightarrow> bool" where
  "double_lt (Finite a) (Finite b) = (a < b)"
| "double_lt (Finite a) PosInf = True"
| "double_lt NegInf (Finite b) = True"
| "double_lt NegInf PosInf = True"
| "double_lt _ _ = False"

definition double_gt :: "double \<Rightarrow> double \<Rightarrow> bool" where
  "double_gt a b = double_lt b a"

fun double_eq :: "double \<Rightarrow> double \<Rightarrow> bool" where
  "double_eq (Finite a) (Finite b) = (a = b)"
| "double_eq PosInf PosInf = True"
| "double_eq NegInf NegInf = True"
| "double_eq _ _ = False"

fun double_neg :: "double \<Rightarrow> double" where
  "double_neg (Finite a) = Finite (- a)"
| "double_neg PosInf = NegInf"
| "double_neg NegInf = PosInf"
| "double_neg NaN = NaN"

text \<open>Addition, for the running total of the statistics: the exact sum, rounded.\<close>

fun double_add :: "double \<Rightarrow> double \<Rightarrow> double" where
  "double_add (Finite a) (Finite b) = to_double (a + b)"
| "double_add NaN _ = NaN"
| "double_add _ NaN = NaN"
| "double_add PosInf NegInf = NaN"
| "double_add NegInf PosInf = NaN"
| "double_add PosInf _ = PosInf"
| "double_add _ PosInf = PosInf"
| "double_add NegInf _ = NegInf"
| "double_add _ NegInf = NegInf"

text \<open>Division of a total by a count \<open>n\<close> converted to \<^verbatim>\<open>double\<close>: the exact quotient,
  rounded. The program divides only when \<open>0 < n\<close>.\<close>

fun double_div_count :: "double \<Rightarrow> nat \<Rightarrow> double" where
  "double_div_count (Finite a) n = to_double (a / of_nat n)"
| "double_div_count v n = v"

text \<open>
  The cast \<^verbatim>\<open>(int)v\<close> truncates towards zero. Its behaviour is undefined when the
  truncated value is not a 32-bit \<^verbatim>\<open>int\<close> (and for infinities and NaN): \<open>None\<close>.
\<close>

definition truncate_rat :: "rat \<Rightarrow> int" where
  "truncate_rat r = (if 0 \<le> r then \<lfloor>r\<rfloor> else \<lceil>r\<rceil>)"

fun double_to_int :: "double \<Rightarrow> int option" where
  "double_to_int (Finite r) =
     (let t = truncate_rat r in
      if - (2 ^ 31) \<le> t \<and> t < 2 ^ 31 then Some t else None)"
| "double_to_int _ = None"

subsection \<open>Character classes of the C locale\<close>

definition isspace :: "char \<Rightarrow> bool" where
  "isspace c = (c \<in> set [CHR '' '', CHR 0x09, CHR 0x0A, CHR 0x0B, CHR 0x0C, CHR 0x0D])"

definition isdigit :: "char \<Rightarrow> bool" where
  "isdigit c = (CHR ''0'' \<le> c \<and> c \<le> CHR ''9'')"

definition tolower :: "char \<Rightarrow> char" where
  "tolower c =
     (case map_of (zip ''ABCDEFGHIJKLMNOPQRSTUVWXYZ'' ''abcdefghijklmnopqrstuvwxyz'') c of
        Some l \<Rightarrow> l
      | None \<Rightarrow> c)"

definition isxdigit :: "char \<Rightarrow> bool" where
  "isxdigit c = (isdigit c \<or> (CHR ''a'' \<le> tolower c \<and> tolower c \<le> CHR ''f''))"

definition isalnum :: "char \<Rightarrow> bool" where
  "isalnum c = (isdigit c \<or> (CHR ''a'' \<le> tolower c \<and> tolower c \<le> CHR ''z''))"

definition digit_val :: "char \<Rightarrow> nat" where
  "digit_val c =
     (if isdigit c then of_char c - 48 else of_char (tolower c) - 87)"

text \<open>The number a digit sequence denotes in base \<open>b\<close>.\<close>

definition digits_val :: "nat \<Rightarrow> string \<Rightarrow> nat" where
  "digits_val b ds = foldl (\<lambda>a c. a * b + digit_val c) 0 ds"

subsection \<open>The subject sequence of \<^verbatim>\<open>strtod\<close>\<close>

text \<open>
  \<^verbatim>\<open>std::stod(str, &idx)\<close> is \<^verbatim>\<open>strtod\<close> on the characters of \<open>str\<close>: white space is
  skipped, then an optional sign, then the longest of: a decimal number (digits with an
  optional point, then an optional exponent), a hexadecimal number (\<^verbatim>\<open>0x\<close>, hexadecimal
  digits with an optional point, then an optional binary exponent), \<^verbatim>\<open>inf\<close> or
  \<^verbatim>\<open>infinity\<close>, \<^verbatim>\<open>nan\<close> or \<^verbatim>\<open>nan(...)\<close>, letters in either case. Each parser below
  returns the value and the number of characters it used.
\<close>

text \<open>An exponent part: one of the marker characters, an optional sign and at least
  one decimal digit. When there is none, exponent \<open>0\<close> and no character used.\<close>

definition parse_exponent :: "string \<Rightarrow> string \<Rightarrow> int \<times> nat" where
  "parse_exponent markers s =
     (case s of
        [] \<Rightarrow> (0, 0)
      | m # r \<Rightarrow>
          if m \<notin> set markers then (0, 0)
          else
            let sg = (case r of [] \<Rightarrow> 0 | c # _ \<Rightarrow> if c = CHR ''+'' \<or> c = CHR ''-'' then 1 else (0::nat));
                neg = (sg = 1 \<and> hd r = CHR ''-'');
                ds = takeWhile isdigit (drop sg r)
            in if ds = [] then (0, 0)
               else ((if neg then - int (digits_val 10 ds) else int (digits_val 10 ds)),
                     1 + sg + length ds))"

definition scale :: "rat \<Rightarrow> nat \<Rightarrow> int \<Rightarrow> rat" where
  "scale m b e = (if 0 \<le> e then m * of_nat b ^ nat e else m / of_nat b ^ nat (- e))"

definition parse_mantissa :: "(char \<Rightarrow> bool) \<Rightarrow> string \<Rightarrow> (string \<times> string \<times> nat) option" where
  "parse_mantissa isd s =
     (let ip = takeWhile isd s;
          r = dropWhile isd s;
          has_point = (r \<noteq> [] \<and> hd r = CHR ''.'');
          fp = (if has_point then takeWhile isd (tl r) else [])
      in if ip = [] \<and> fp = [] then None
         else Some (ip, fp, length ip + (if has_point then 1 + length fp else 0)))"

definition parse_decimal :: "string \<Rightarrow> (rat \<times> nat) option" where
  "parse_decimal s =
     (case parse_mantissa isdigit s of
        None \<Rightarrow> None
      | Some (ip, fp, n) \<Rightarrow>
          let m = of_nat (digits_val 10 (ip @ fp)) / 10 ^ length fp;
              (e, k) = parse_exponent ''eE'' (drop n s)
          in Some (scale m 10 e, n + k))"

definition parse_hex :: "string \<Rightarrow> (rat \<times> nat) option" where
  "parse_hex s =
     (if map tolower (take 2 s) \<noteq> ''0x'' then None
      else
        case parse_mantissa isxdigit (drop 2 s) of
          None \<Rightarrow> None
        | Some (ip, fp, n) \<Rightarrow>
            let m = of_nat (digits_val 16 (ip @ fp)) / 16 ^ length fp;
                (e, k) = parse_exponent ''pP'' (drop (2 + n) s)
            in Some (scale m 2 e, 2 + n + k))"

text \<open>The characters of \<^verbatim>\<open>(n-char-sequence)\<close> after \<^verbatim>\<open>nan\<close>, when it is well formed.\<close>

definition nan_payload :: "string \<Rightarrow> nat" where
  "nan_payload s =
     (case s of
        [] \<Rightarrow> 0
      | c # r \<Rightarrow>
          if c \<noteq> CHR ''('' then 0
          else
            let body = takeWhile (\<lambda>c. isalnum c \<or> c = CHR ''_'') r;
                r' = drop (length body) r
            in if r' \<noteq> [] \<and> hd r' = CHR '')'' then 2 + length body else 0)"

text \<open>What the subject sequence denotes: a number, exactly, or one of the two special
  values.\<close>

datatype subject = Number rat | Infinity | NotANumber

definition parse_special :: "string \<Rightarrow> (subject \<times> nat) option" where
  "parse_special s =
     (if map tolower (take 8 s) = ''infinity'' then Some (Infinity, 8)
      else if map tolower (take 3 s) = ''inf'' then Some (Infinity, 3)
      else if map tolower (take 3 s) = ''nan'' then Some (NotANumber, 3 + nan_payload (drop 3 s))
      else None)"

definition parse_number :: "string \<Rightarrow> (subject \<times> nat) option" where
  "parse_number s =
     (case parse_special s of
        Some r \<Rightarrow> Some r
      | None \<Rightarrow>
          (case parse_hex s of
             Some (q, n) \<Rightarrow> Some (Number q, n)
           | None \<Rightarrow>
               (case parse_decimal s of
                  Some (q, n) \<Rightarrow> Some (Number q, n)
                | None \<Rightarrow> None)))"

text \<open>
  \<^verbatim>\<open>strtod\<close> returns the number rounded to binary64. It reports a range error
  (\<^verbatim>\<open>ERANGE\<close>) when the result overflows to an infinity, and when it underflows: when the
  number is tiny (rounded to 53 bits it is still below the smallest normal value
  \<open>2 ^ -1022\<close>) and the result is not exact. A subnormal number that binary64 represents
  exactly is returned without error.
\<close>

definition range_error :: "rat \<Rightarrow> bool" where
  "range_error q =
     (q \<noteq> 0 \<and>
      (2 ^ 1024 \<le> round_binary64 \<bar>q\<bar> \<or>
       (round_normal \<bar>q\<bar> < 1 / 2 ^ 1022 \<and> round_binary64 \<bar>q\<bar> \<noteq> \<bar>q\<bar>)))"

text \<open>
  \<^verbatim>\<open>stod\<close> throws \<^verbatim>\<open>std::invalid_argument\<close> when no conversion can be performed and
  \<^verbatim>\<open>std::out_of_range\<close> on a range error; otherwise it returns the value and stores in
  \<open>idx\<close> the number of characters processed, white space and sign included.
\<close>

datatype stod_error = invalid_argument | out_of_range

definition leading_space :: "string \<Rightarrow> nat" where
  "leading_space str = length (takeWhile isspace str)"

definition sign_length :: "string \<Rightarrow> nat" where
  "sign_length s = (case s of [] \<Rightarrow> 0 | c # _ \<Rightarrow> if c = CHR ''+'' \<or> c = CHR ''-'' then 1 else 0)"

definition stod :: "string \<Rightarrow> stod_error + (double \<times> nat)" where
  "stod str =
     (let ws = leading_space str;
          s1 = drop ws str;
          sg = sign_length s1;
          neg = (sg = 1 \<and> hd s1 = CHR ''-'')
      in case parse_number (drop sg s1) of
           None \<Rightarrow> Inl invalid_argument
         | Some (Number q, n) \<Rightarrow>
             let q' = (if neg then - q else q)
             in if range_error q' then Inl out_of_range else Inr (to_double q', ws + sg + n)
         | Some (Infinity, n) \<Rightarrow> Inr (if neg then NegInf else PosInf, ws + sg + n)
         | Some (NotANumber, n) \<Rightarrow> Inr (NaN, ws + sg + n))"

section \<open>Safe Numeric Converter\<close>

text \<open>
  \<^verbatim>\<open>safeStringToDouble\<close>: the empty string is \<open>0.0\<close>; an exception of \<^verbatim>\<open>stod\<close> is
  caught (\<^verbatim>\<open>catch (...)\<close>) and gives \<open>0.0\<close>; so does a conversion that stops before the
  end of the string.
\<close>

definition safeStringToDouble :: "string \<Rightarrow> double" where
  "safeStringToDouble str =
     (if str = [] then Finite 0
      else
        case stod str of
          Inl e \<Rightarrow> Finite 0
        | Inr (v, idx) \<Rightarrow> if idx \<noteq> length str then Finite 0 else v)"

section \<open>Star rendering\<close>

text \<open>The two bytes of the half marker (the UTF-8 encoding of the source's literal).\<close>

definition half_marker :: string where
  "half_marker = [CHR 0xC2, CHR 0xBD]"

text \<open>
  \<^verbatim>\<open>ratingToStars\<close>. The result is \<open>None\<close> where the cast to \<^verbatim>\<open>int\<close> has no defined
  behaviour. The loop appends one \<^verbatim>\<open>*\<close> for each \<open>i\<close> from \<open>0\<close> below \<open>fullStars\<close>, none
  when \<open>fullStars\<close> is not positive.
\<close>

definition ratingToStars :: "string \<Rightarrow> string option" where
  "ratingToStars rating =
     (if rating = [] then Some []
      else
        let ratingValue = safeStringToDouble rating in
        if double_eq ratingValue (Finite 0) then Some []
        else
          case double_to_int ratingValue of
            None \<Rightarrow> None
          | Some fullStars \<Rightarrow>
              let halfStar = (case ratingValue of Finite r \<Rightarrow> r - of_int fullStars \<ge> 1 / 2 | _ \<Rightarrow> False);
                  stars = replicate (nat fullStars) CHR ''*'' @ (if halfStar then half_marker else [])
              in Some (stars @ '' ('' @ rating @ ''/5)''))"

section \<open>Movie records and the Diary Reader\<close>

record Movie =
  date :: string
  name :: string
  year :: string
  letterboxdURI :: string
  rating :: string
  rewatch :: string
  tags :: string
  watchedDate :: string

text \<open>The two console streams. \<^verbatim>\<open>endl\<close> writes a line feed.\<close>

record console =
  cout :: string
  cerr :: string

definition endl :: string where
  "endl = [CHR 0x0A]"

text \<open>What \<^verbatim>\<open><<\<close> prints for an unsigned count: its decimal digits.\<close>

fun show_nat :: "nat \<Rightarrow> string" where
  "show_nat n =
     (if n < 10 then [''0123456789'' ! n]
      else show_nat (n div 10) @ [''0123456789'' ! (n mod 10)])"

text \<open>
  The file system, as far as the reader sees it: what opening a file name in a mode
  yields, \<open>None\<close> when the file cannot be opened, otherwise the characters the stream
  delivers.
\<close>

datatype open_mode = TextMode | BinaryMode

type_synonym filesystem = "open_mode \<Rightarrow> string \<Rightarrow> string option"

text \<open>
  The lines successive \<^verbatim>\<open>getline\<close> calls deliver: the characters up to each line feed,
  and a last line without line feed when it has characters. \<open>cur\<close> is the line being
  collected.
\<close>

fun splitLines :: "string \<Rightarrow> string \<Rightarrow> string list" where
  "splitLines [] cur = (if cur = [] then [] else [cur])"
| "splitLines (c # cs) cur =
     (if c = CHR 0x0A then cur # splitLines cs [] else splitLines cs (cur @ [c]))"

definition getlines :: "string \<Rightarrow> string list" where
  "getlines content = splitLines content []"

text \<open>The removal of a trailing carriage return at the head of the loop body.\<close>

definition stripCR :: "string \<Rightarrow> string" where
  "stripCR line =
     (if line \<noteq> [] \<and> line ! (length line - 1) = CHR 0x0D
      then substr line 0 (length line - 1) else line)"

text \<open>The positional mapping of the fields to a record; a missing column is empty.\<close>

definition field_or_empty :: "string list \<Rightarrow> nat \<Rightarrow> string" where
  "field_or_empty flds i = (if length flds > i then flds ! i else [])"

definition movieOfFields :: "string list \<Rightarrow> Movie" where
  "movieOfFields flds =
     \<lparr>date = field_or_empty flds 0,
      name = field_or_empty flds 1,
      year = field_or_empty flds 2,
      letterboxdURI = field_or_empty flds 3,
      rating = field_or_empty flds 4,
      rewatch = field_or_empty flds 5,
      tags = field_or_empty flds 6,
      watchedDate = field_or_empty flds 7\<rparr>"

text \<open>
  The state of the \<^verbatim>\<open>while (getline(file, line))\<close> loop: the local variables of
  \<^verbatim>\<open>readLetterboxdCSV\<close> and the console. Nothing in the \<^verbatim>\<open>try\<close> block of the loop body
  throws in this model (the parser is total), so its two handlers, which would print a
  warning and go on with the next line, have no branch.
\<close>

record reader_state =
  movies :: "Movie list"
  lineNumber :: nat
  isFirstLine :: bool
  con :: console

definition print :: "string \<Rightarrow> reader_state \<Rightarrow> reader_state" where
  "print s st = st\<lparr>con := (con st)\<lparr>cout := cout (con st) @ s\<rparr>\<rparr>"

text \<open>One pass through the loop body, for the line \<open>l\<close> that \<^verbatim>\<open>getline\<close> delivered.\<close>

definition readLine :: "string \<Rightarrow> reader_state \<Rightarrow> reader_state" where
  "readLine l st =
     (let st1 = st\<lparr>lineNumber := lineNumber st + 1\<rparr>;
          line = stripCR l
      in if isFirstLine st1 then
           print (''CSV Header: '' @ line @ endl @ endl) (st1\<lparr>isFirstLine := False\<rparr>)
         else if line = [] then st1
         else
           let flds = parseCSVLine line;
               st2 = (if lineNumber st1 = 2
                      then print (''First data line has '' @ show_nat (length flds) @ '' fields''
                                  @ endl @ endl) st1
                      else st1)
           in if length flds \<ge> 2
              then st2\<lparr>movies := movies st2 @ [movieOfFields flds]\<rparr>
              else st2)"

primrec readLoop :: "string list \<Rightarrow> reader_state \<Rightarrow> reader_state" where
  "readLoop [] st = st"
| "readLoop (l # ls) st = readLoop ls (readLine l st)"

definition open_error_message :: "string \<Rightarrow> string" where
  "open_error_message filename =
     ''Error: Could not open file '' @ [CHR 0x27] @ filename @ [CHR 0x27] @ endl @
     ''Please check that:'' @ endl @
     ''  - The file path is correct'' @ endl @
     ''  - The file exists'' @ endl @
     ''  - You have permission to read the file'' @ endl"

text \<open>
  \<^verbatim>\<open>readLetterboxdCSV\<close>: the file is opened as it is and, if that fails, in binary mode
  (\<open>open_file\<close>). The first component of the result is the returned vector, the second
  what the call wrote to the console.
\<close>

definition open_file :: "filesystem \<Rightarrow> string \<Rightarrow> string option" where
  "open_file fs filename =
     (case fs TextMode filename of
        Some content \<Rightarrow> Some content
      | None \<Rightarrow> fs BinaryMode filename)"

definition readLetterboxdCSV :: "filesystem \<Rightarrow> string \<Rightarrow> Movie list \<times> console" where
  "readLetterboxdCSV fs filename =
     (case open_file fs filename of
        None \<Rightarrow> ([], \<lparr>cout = [], cerr = open_error_message filename\<rparr>)
      | Some content \<Rightarrow>
          let st = readLoop (getlines content)
                     \<lparr>movies = [], lineNumber = 0, isFirstLine = True,
                      con = \<lparr>cout = [], cerr = []\<rparr>\<rparr>;
              st' = print (''Successfully read '' @ show_nat (length (movies st))
                           @ '' movies from CSV'' @ endl @ endl) st
          in (movies st', con st'))"

section \<open>The report: ordering and statistics\<close>

text \<open>
  What \<^verbatim>\<open>main\<close> does with the vector the reader returned, before the ordering step: when
  it is empty \<^verbatim>\<open>main\<close> prints its troubleshooting text, waits for Enter and returns;
  otherwise it announces the number of movies and goes on. The test \<^verbatim>\<open>movies.empty()\<close> is the
  only use \<^verbatim>\<open>main\<close> makes of the outcome of the reader.
\<close>

datatype after_read = Returns string | GoesOn string

definition banner :: string where
  "banner = replicate 40 CHR ''=''"

definition mainAfterRead :: "Movie list \<Rightarrow> after_read" where
  "mainAfterRead ms =
     (if ms = [] then
        Returns
          (banner @ endl @
           ''No movies found or error reading file.'' @ endl @
           banner @ endl @
           endl @
           ''Troubleshooting tips:'' @ endl @
           ''- Make sure you selected '' @ [CHR 0x27] @ ''diary.csv'' @ [CHR 0x27] @ '' (not ''
             @ [CHR 0x27] @ ''watched.csv'' @ [CHR 0x27] @ '' or other files)'' @ endl @
           ''- Check that the file isn'' @ [CHR 0x27] @ ''t empty'' @ endl @
           ''- Try extracting the ZIP file again'' @ endl @
           endl @ ''Press Enter to exit...'')
      else
        GoesOn
          (banner @ endl @
           ''Found '' @ show_nat (length ms) @ '' watched movies!'' @ endl @
           banner @ endl @ endl))"






text \<open>The statistics loop of \<^verbatim>\<open>main\<close> with its three accumulators (\<open>statsStep\<close> is its
  body), and the average it prints when there is a rated film. The two counters are
  \<^verbatim>\<open>int\<close> variables counting records of a vector in memory; they are modelled as natural
  numbers.\<close>

record statistics =
  ratedMovies :: nat
  totalRating :: double
  rewatchCount :: nat

definition statsStep :: "Movie \<Rightarrow> statistics \<Rightarrow> statistics" where
  "statsStep movie st =
     (let st1 =
            (if rating movie \<noteq> [] then
               let r = safeStringToDouble (rating movie) in
               if double_gt r (Finite 0)
               then st\<lparr>ratedMovies := ratedMovies st + 1,
                       totalRating := double_add (totalRating st) r\<rparr>
               else st
             else st)
      in if rewatch movie \<noteq> [] \<and> rewatch movie \<noteq> ''No''
         then st1\<lparr>rewatchCount := rewatchCount st1 + 1\<rparr>
         else st1)"

primrec statsLoop :: "Movie list \<Rightarrow> statistics \<Rightarrow> statistics" where
  "statsLoop [] st = st"
| "statsLoop (movie # ms) st = statsLoop ms (statsStep movie st)"

definition computeStatistics :: "Movie list \<Rightarrow> statistics" where
  "computeStatistics ms =
     statsLoop ms \<lparr>ratedMovies = 0, totalRating = Finite 0, rewatchCount = 0\<rparr>"

definition avgRating :: "statistics \<Rightarrow> double option" where
  "avgRating st =
     (if ratedMovies st > 0
      then Some (double_div_count (totalRating st) (ratedMovies st))
      else None)"

section \<open>Notions of the specification\<close>

text \<open>
  The definitions of this section do not come from the code: they say, in the words of
  the specification, what the properties below compare the code with, and name the
  sample inputs.
\<close>

text \<open>The data lines of a source: the lines after the header, without their trailing
  carriage return, that are not empty.\<close>

definition dataLines :: "string list \<Rightarrow> string list" where
  "dataLines ls = filter (\<lambda>l. l \<noteq> []) (map stripCR ls)"

text \<open>The records of a sequence of lines after the header: one for each data line with
  at least two fields, in order.\<close>

definition recordsOfLines :: "string list \<Rightarrow> Movie list" where
  "recordsOfLines ls =
     map movieOfFields (filter (\<lambda>f. 2 \<le> length f) (map parseCSVLine (dataLines ls)))"

definition recordsOf :: "string \<Rightarrow> Movie list" where
  "recordsOf content = recordsOfLines (tl (getlines content))"

text \<open>The number of malformed lines of a source: its data lines with fewer than two
  fields.\<close>

definition malformedLines :: "string \<Rightarrow> nat" where
  "malformedLines content =
     length (filter (\<lambda>f. length f < 2) (map parseCSVLine (dataLines (tl (getlines content)))))"

text \<open>
  The standard output of the reader for a readable source, in closed form: the header
  line; for the second line of the source, when it is not empty, the number of its
  fields; the number of records read.
\<close>

definition readerOutput :: "string \<Rightarrow> string" where
  "readerOutput content =
     (case getlines content of
        [] \<Rightarrow> []
      | h # rest \<Rightarrow>
          ''CSV Header: '' @ stripCR h @ endl @ endl @
          (case rest of
             [] \<Rightarrow> []
           | l # _ \<Rightarrow>
               if stripCR l = [] then []
               else ''First data line has '' @ show_nat (length (parseCSVLine (stripCR l)))
                    @ '' fields'' @ endl @ endl))
     @ ''Successfully read '' @ show_nat (length (recordsOf content)) @ '' movies from CSV''
     @ endl @ endl"

text \<open>A file system with one readable file, and one with none.\<close>

definition single_file :: "string \<Rightarrow> string \<Rightarrow> filesystem" where
  "single_file path content mode filename = (if filename = path then Some content else None)"

definition no_file :: filesystem where
  "no_file mode filename = None"

text \<open>Sample sources: a header alone; a header and one record; the same followed by a line
  without a comma; a header and a line whose second field is empty.\<close>

definition header_only :: string where
  "header_only = ''Date,Name,Year,Letterboxd URI,Rating,Rewatch,Tags,Watched Date'' @ endl"

definition one_record :: string where
  "one_record = header_only @ ''2024-01-01,Alien,1979'' @ endl"

definition one_record_one_malformed :: string where
  "one_record_one_malformed = one_record @ ''not a record'' @ endl"

definition nameless_record :: string where
  "nameless_record = header_only @ ''2024-01-01,,1979'' @ endl"

text \<open>
  What is left of a string after the white space and the sign that \<^verbatim>\<open>strtod\<close> skips,
  and whether it begins, in any letter case, with the three letters of a spelling of
  infinity or NaN.
\<close>

definition after_space_sign :: "string \<Rightarrow> string" where
  "after_space_sign str =
     drop (sign_length (drop (leading_space str) str)) (drop (leading_space str) str)"

definition begins_inf_or_nan :: "string \<Rightarrow> bool" where
  "begins_inf_or_nan str =
     (map tolower (take 3 (after_space_sign str)) = ''inf'' \<or>
      map tolower (take 3 (after_space_sign str)) = ''nan'')"

text \<open>A record with a given date and rating, for the samples.\<close>

definition sample_movie :: "string \<Rightarrow> string \<Rightarrow> Movie" where
  "sample_movie d r =
     \<lparr>date = d, name = ''Alien'', year = ''1979'', letterboxdURI = [], rating = r,
      rewatch = [], tags = [], watchedDate = []\<rparr>"

text \<open>
  Rated films. The specification counts a record as rated when its rating is not empty
  and converts to a nonzero value (\<open>rated_nonzero\<close>); the guard of the statistics loop
  asks for a value greater than zero (\<open>rated_positive\<close>).
\<close>

definition rated_nonzero :: "Movie \<Rightarrow> bool" where
  "rated_nonzero m =
     (rating m \<noteq> [] \<and> \<not> double_eq (safeStringToDouble (rating m)) (Finite 0))"

definition rated_positive :: "Movie \<Rightarrow> bool" where
  "rated_positive m =
     (rating m \<noteq> [] \<and> double_gt (safeStringToDouble (rating m)) (Finite 0))"

text \<open>The sum of the converted ratings of a sequence of records, added from left to
  right starting from \<open>0.0\<close>.\<close>

definition sum_ratings :: "Movie list \<Rightarrow> double" where
  "sum_ratings ms = foldl double_add (Finite 0) (map (\<lambda>m. safeStringToDouble (rating m)) ms)"




section \<open>Properties of the trimmer and the line parser\<close>

lemma find_last_not_of_bound: "find_last_not_of s cs = Some j \<Longrightarrow> j < length s"
  by (induction s arbitrary: j) (auto split: if_splits option.splits)

lemma find_first_last:
  "find_first_not_of s cs = Some i \<Longrightarrow> \<exists>j. find_last_not_of s cs = Some j \<and> i \<le> j"
  by (induction s arbitrary: i) (auto split: if_splits option.splits)

lemma set_trim: "set (trim s) \<subseteq> set s"
  by (auto simp: trim_def substr_def split: option.splits dest: in_set_takeD in_set_dropD)

lemma parseLoop_no_quote:
  "\<forall>f\<in>set flds. CHR 0x22 \<notin> set f \<Longrightarrow> CHR 0x22 \<notin> set field \<Longrightarrow>
   \<forall>f\<in>set (parseLoop cs flds field inQ). CHR 0x22 \<notin> set f"
proof (induction cs arbitrary: flds field inQ)
  case Nil
  then show ?case using set_trim[of field] by auto
next
  case (Cons c cs)
  have t: "CHR 0x22 \<notin> set (trim field)"
    using Cons.prems(2) set_trim[of field] by auto
  show ?case
  proof (cases "c = CHR 0x22")
    case True
    then show ?thesis using Cons.IH[OF Cons.prems] by simp
  next
    case False
    show ?thesis
    proof (cases "c = CHR '','' \<and> \<not> inQ")
      case True
      have "\<forall>f\<in>set (flds @ [trim field]). CHR 0x22 \<notin> set f"
        using Cons.prems(1) t by auto
      from Cons.IH[OF this, of "[]"] True False show ?thesis by simp
    next
      case sep: False
      have "CHR 0x22 \<notin> set (field @ [c])"
        using Cons.prems(2) False by auto
      from Cons.IH[OF Cons.prems(1) this] sep False show ?thesis by auto
    qed
  qed
qed

text \<open>
  Claim C8. The line
  \<^verbatim>\<open>2024-01-01,"Movie, The",2023,,4.5,No,,"2024-01-01"\<close>
  parses into exactly the eight fields \<^verbatim>\<open>2024-01-01\<close>, \<^verbatim>\<open>Movie, The\<close>, \<^verbatim>\<open>2023\<close>, the empty
  field, \<^verbatim>\<open>4.5\<close>, \<^verbatim>\<open>No\<close>, the empty field and \<^verbatim>\<open>2024-01-01\<close>: the comma inside the
  quoted span is ordinary text and every field is trimmed.
\<close>

theorem parseCSVLine_diary_example:
  "parseCSVLine (''2024-01-01,'' @ [CHR 0x22] @ ''Movie, The'' @ [CHR 0x22]
                 @ '',2023,,4.5,No,,'' @ [CHR 0x22] @ ''2024-01-01'' @ [CHR 0x22])
   = [''2024-01-01'', ''Movie, The'', ''2023'', [], ''4.5'', ''No'', [], ''2024-01-01'']"
  by (simp add: parseCSVLine_def trim_def trim_chars_def substr_def)

text \<open>
  Claim C10. For every input line, no field the line parser returns contains a quote
  character: the scan consumes every quote, also one inside an otherwise unquoted field,
  in the toggle of the quote state and never appends it to the field text.
\<close>

theorem parseCSVLine_no_quote:
  "\<forall>f\<in>set (parseCSVLine line). CHR 0x22 \<notin> set f"
  unfolding parseCSVLine_def by (rule parseLoop_no_quote) simp_all

theorem parseCSVLine_no_quote_witness:
  "parseCSVLine (''ab'' @ [CHR 0x22] @ ''cd,e'') = [''abcd,e''] \<and>
   ''abcd,e'' \<in> set (parseCSVLine (''ab'' @ [CHR 0x22] @ ''cd,e'')) \<and>
   CHR 0x22 \<notin> set ''abcd,e''"
  using parseCSVLine_no_quote [of "''ab'' @ [CHR 0x22] @ ''cd,e''"]
  by (simp add: parseCSVLine_def trim_def trim_chars_def substr_def)

section \<open>Properties of the numeric conversion and the star rendering\<close>

lemma floor_rat_numeral: "\<lfloor>numeral a / numeral b :: rat\<rfloor> = numeral a div numeral b"
  by (metis floor_divide_of_int_eq of_int_numeral)

lemma ceiling_rat_numeral: "\<lceil>numeral a / numeral b :: rat\<rceil> = - (- numeral a div numeral b)"
  by (metis ceiling_divide_eq_div of_int_numeral)

lemmas rounding_defs = to_double_def range_error_def round_binary64_def round_normal_def
  quantize_def floor_log2_def round_half_even_def pow2_def floor_rat_numeral ceiling_rat_numeral
  Let_def

lemma to_double_exact:
  "to_double 0 = Finite 0" "to_double 3 = Finite 3" "to_double 4 = Finite 4"
  "to_double 5 = Finite 5" "to_double (9 / 2) = Finite (9 / 2)" "to_double (- 3) = Finite (- 3)"
  by (simp_all add: rounding_defs)

lemma no_range_error:
  "\<not> range_error 0" "\<not> range_error 3" "\<not> range_error 4" "\<not> range_error 5"
  "\<not> range_error (9 / 2)" "\<not> range_error (- 3)"
  by (simp_all add: rounding_defs)

lemma stod_unsigned:
  assumes "takeWhile isspace s = []" and "s \<noteq> []"
    and "hd s \<noteq> CHR ''+''" and "hd s \<noteq> CHR ''-''"
    and "parse_number s = Some (Number q, n)" and "\<not> range_error q"
  shows "stod s = Inr (to_double q, n)"
  using assms by (cases s) (simp_all add: stod_def leading_space_def sign_length_def)

lemma stod_no_number:
  assumes "takeWhile isspace s = []" and "s \<noteq> []"
    and "hd s \<noteq> CHR ''+''" and "hd s \<noteq> CHR ''-''"
    and "parse_number s = None"
  shows "stod s = Inl invalid_argument"
  using assms by (cases s) (simp_all add: stod_def leading_space_def sign_length_def)

lemma parse_number_decimal:
  assumes "parse_special s = None" and "parse_hex s = None" and "parse_decimal s = r"
  shows "parse_number s = map_option (\<lambda>(q, n). (Number q, n)) r"
  using assms by (cases r) (auto simp: parse_number_def)

lemmas decimal_defs = parse_decimal_def parse_mantissa_def parse_exponent_def scale_def
  isdigit_def digits_val_def digit_val_def

lemma parse_number_45: "parse_number ''4.5'' = Some (Number (9 / 2), 3)"
proof -
  have "parse_special ''4.5'' = None" by (simp add: parse_special_def tolower_def)
  moreover have "parse_hex ''4.5'' = None" by (simp add: parse_hex_def tolower_def)
  moreover have "parse_decimal ''4.5'' = Some (9 / 2, 3)" by (simp add: decimal_defs)
  ultimately show ?thesis by (simp add: parse_number_decimal)
qed

lemma parse_number_45abc: "parse_number ''4.5abc'' = Some (Number (9 / 2), 3)"
proof -
  have "parse_special ''4.5abc'' = None" by (simp add: parse_special_def tolower_def)
  moreover have "parse_hex ''4.5abc'' = None" by (simp add: parse_hex_def tolower_def)
  moreover have "parse_decimal ''4.5abc'' = Some (9 / 2, 3)" by (simp add: decimal_defs)
  ultimately show ?thesis by (simp add: parse_number_decimal)
qed

lemma parse_number_abc: "parse_number ''abc'' = None"
proof -
  have "parse_special ''abc'' = None" by (simp add: parse_special_def tolower_def)
  moreover have "parse_hex ''abc'' = None" by (simp add: parse_hex_def tolower_def)
  moreover have "parse_decimal ''abc'' = None" by (simp add: decimal_defs)
  ultimately show ?thesis by (simp add: parse_number_decimal)
qed

lemma parse_number_5: "parse_number ''5'' = Some (Number 5, 1)"
proof -
  have "parse_special ''5'' = None" by (simp add: parse_special_def tolower_def)
  moreover have "parse_hex ''5'' = None" by (simp add: parse_hex_def tolower_def)
  moreover have "parse_decimal ''5'' = Some (5, 1)" by (simp add: decimal_defs)
  ultimately show ?thesis by (simp add: parse_number_decimal)
qed

lemma parse_number_4: "parse_number ''4'' = Some (Number 4, 1)"
proof -
  have "parse_special ''4'' = None" by (simp add: parse_special_def tolower_def)
  moreover have "parse_hex ''4'' = None" by (simp add: parse_hex_def tolower_def)
  moreover have "parse_decimal ''4'' = Some (4, 1)" by (simp add: decimal_defs)
  ultimately show ?thesis by (simp add: parse_number_decimal)
qed

lemma parse_number_0: "parse_number ''0'' = Some (Number 0, 1)"
proof -
  have "parse_special ''0'' = None" by (simp add: parse_special_def tolower_def)
  moreover have "parse_hex ''0'' = None" by (simp add: parse_hex_def tolower_def)
  moreover have "parse_decimal ''0'' = Some (0, 1)" by (simp add: decimal_defs)
  ultimately show ?thesis by (simp add: parse_number_decimal)
qed

lemma parse_number_3: "parse_number ''3'' = Some (Number 3, 1)"
proof -
  have "parse_special ''3'' = None" by (simp add: parse_special_def tolower_def)
  moreover have "parse_hex ''3'' = None" by (simp add: parse_hex_def tolower_def)
  moreover have "parse_decimal ''3'' = Some (3, 1)" by (simp add: decimal_defs)
  ultimately show ?thesis by (simp add: parse_number_decimal)
qed

lemma parse_number_0x1A: "parse_number ''0x1A'' = Some (Number 26, 4)"
proof -
  have "parse_special ''0x1A'' = None" by (simp add: parse_special_def tolower_def)
  moreover have "parse_hex ''0x1A'' = Some (26, 4)"
    by (simp add: parse_hex_def parse_mantissa_def parse_exponent_def scale_def isxdigit_def
        isdigit_def digits_val_def digit_val_def tolower_def)
  ultimately show ?thesis by (simp add: parse_number_def)
qed

lemma stod_45: "stod ''4.5'' = Inr (Finite (9 / 2), 3)"
  using stod_unsigned [OF _ _ _ _ parse_number_45]
  by (simp add: isspace_def no_range_error to_double_exact)

lemma stod_45abc: "stod ''4.5abc'' = Inr (Finite (9 / 2), 3)"
  using stod_unsigned [OF _ _ _ _ parse_number_45abc]
  by (simp add: isspace_def no_range_error to_double_exact)

lemma stod_abc: "stod ''abc'' = Inl invalid_argument"
  by (rule stod_no_number) (simp_all add: isspace_def parse_number_abc)

lemma stod_5: "stod ''5'' = Inr (Finite 5, 1)"
  using stod_unsigned [OF _ _ _ _ parse_number_5]
  by (simp add: isspace_def no_range_error to_double_exact)

lemma stod_4: "stod ''4'' = Inr (Finite 4, 1)"
  using stod_unsigned [OF _ _ _ _ parse_number_4]
  by (simp add: isspace_def no_range_error to_double_exact)

lemma stod_0: "stod ''0'' = Inr (Finite 0, 1)"
  using stod_unsigned [OF _ _ _ _ parse_number_0]
  by (simp add: isspace_def no_range_error to_double_exact)

lemma stod_minus_3: "stod ''-3'' = Inr (Finite (- 3), 2)"
  by (simp add: stod_def leading_space_def sign_length_def isspace_def parse_number_3
      no_range_error to_double_exact)

lemma stod_nan: "stod ''nan'' = Inr (NaN, 3)"
  by (simp add: stod_def leading_space_def sign_length_def isspace_def parse_number_def
      parse_special_def tolower_def nan_payload_def)

lemma stod_inf: "stod ''inf'' = Inr (PosInf, 3)"
  by (simp add: stod_def leading_space_def sign_length_def isspace_def parse_number_def
      parse_special_def tolower_def)

lemma stod_0x1A: "stod ''0x1A'' = Inr (Finite 26, 4)"
proof -
  have "to_double 26 = Finite 26" and "\<not> range_error 26"
    by (simp_all add: rounding_defs)
  with stod_unsigned [OF _ _ _ _ parse_number_0x1A] show ?thesis
    by (simp add: isspace_def)
qed

lemma safeStringToDouble_45: "safeStringToDouble ''4.5'' = Finite (9 / 2)"
  by (simp add: safeStringToDouble_def stod_45)

lemma safeStringToDouble_5: "safeStringToDouble ''5'' = Finite 5"
  by (simp add: safeStringToDouble_def stod_5)

lemma safeStringToDouble_4: "safeStringToDouble ''4'' = Finite 4"
  by (simp add: safeStringToDouble_def stod_4)

lemma safeStringToDouble_0: "safeStringToDouble ''0'' = Finite 0"
  by (simp add: safeStringToDouble_def stod_0)

lemma safeStringToDouble_minus_3: "safeStringToDouble ''-3'' = Finite (- 3)"
  by (simp add: safeStringToDouble_def stod_minus_3)

subsection \<open>Strings without a number, and digits followed by another character\<close>

lemma tolower_other: "c \<notin> set ''ABCDEFGHIJKLMNOPQRSTUVWXYZ'' \<Longrightarrow> tolower c = c"
  by (simp add: tolower_def)

lemma isdigit_not_upper: "isdigit c \<Longrightarrow> c \<notin> set ''ABCDEFGHIJKLMNOPQRSTUVWXYZ''"
  by (auto simp: isdigit_def)

lemma tolower_x:
  assumes "tolower c = CHR ''x''"
  shows "c = CHR ''x'' \<or> c = CHR ''X''"
proof (cases "c \<in> set ''ABCDEFGHIJKLMNOPQRSTUVWXYZ''")
  case False
  then show ?thesis using assms tolower_other [of c] by simp
next
  case True
  with assms show ?thesis by (auto simp: tolower_def)
qed

lemma tolower_digit: "tolower c = CHR ''0'' \<Longrightarrow> c = CHR ''0''"
  by (simp add: tolower_def split: if_splits)

lemma isdigit_facts:
  assumes "isdigit c"
  shows "\<not> isspace c" and "c \<noteq> CHR ''+''" and "c \<noteq> CHR ''-''" and "tolower c = c"
    and "c \<noteq> CHR ''i''" and "c \<noteq> CHR ''n''" and "c \<noteq> CHR ''x''"
proof -
  show "tolower c = c" using assms by (intro tolower_other isdigit_not_upper)
  show "\<not> isspace c" and "c \<noteq> CHR ''+''" and "c \<noteq> CHR ''-''"
    and "c \<noteq> CHR ''i''" and "c \<noteq> CHR ''n''" and "c \<noteq> CHR ''x''"
    using assms by (auto simp: isdigit_def isspace_def)
qed

lemma no_digit_no_number:
  assumes nd: "\<forall>c\<in>set u. \<not> isdigit c"
    and ns: "map tolower (take 3 u) \<noteq> ''inf''" "map tolower (take 3 u) \<noteq> ''nan''"
  shows "parse_number u = None"
proof -
  have "map tolower (take 8 u) \<noteq> ''infinity''"
  proof
    assume "map tolower (take 8 u) = ''infinity''"
    then have "take 3 (map tolower (take 8 u)) = ''inf''" by simp
    then have "map tolower (take 3 u) = ''inf''"
      by (simp add: take_map)
    with ns show False by simp
  qed
  with ns have sp: "parse_special u = None" by (simp add: parse_special_def)
  have hx: "parse_hex u = None"
  proof (cases "map tolower (take 2 u) = ''0x''")
    case False
    then show ?thesis by (simp add: parse_hex_def)
  next
    case True
    then obtain a r where u: "u = a # r" and "tolower a = CHR ''0''"
      by (cases u) auto
    then have "a = CHR ''0''" by (simp add: tolower_digit)
    with u nd show ?thesis by (simp add: isdigit_def)
  qed
  have tw: "takeWhile isdigit v = []" if "set v \<subseteq> set u" for v
    using that nd by (cases v) auto
  have "set (tl (dropWhile isdigit u)) \<subseteq> set u"
    by (metis list.set_sel(2) set_dropWhileD subsetI tl_Nil)
  then have "parse_mantissa isdigit u = None"
    by (simp add: parse_mantissa_def Let_def tw)
  then have "parse_decimal u = None" by (simp add: parse_decimal_def)
  with sp hx show ?thesis by (simp add: parse_number_def)
qed

lemma no_digit_gives_zero:
  assumes "\<forall>c\<in>set s. \<not> isdigit c" and "\<not> begins_inf_or_nan s"
  shows "safeStringToDouble s = Finite 0"
proof -
  have "set (after_space_sign s) \<subseteq> set s"
    unfolding after_space_sign_def by (meson set_drop_subset subset_trans)
  with assms(1) have "\<forall>c\<in>set (after_space_sign s). \<not> isdigit c" by blast
  from no_digit_no_number [OF this] assms(2)
  have "parse_number (after_space_sign s) = None"
    by (simp add: begins_inf_or_nan_def)
  then have "stod s = Inl invalid_argument"
    by (simp add: stod_def Let_def after_space_sign_def)
  then show ?thesis by (simp add: safeStringToDouble_def)
qed

lemma digits_then_other:
  assumes ne: "ds \<noteq> []" and dg: "\<forall>d\<in>set ds. isdigit d"
    and c: "\<not> isdigit c" "c \<noteq> CHR ''.''" "c \<notin> set ''eExX''"
  shows "\<exists>q. parse_number (ds @ c # r) = Some (Number q, length ds)"
proof -
  from ne obtain d ds' where ds: "ds = d # ds'" by (cases ds) auto
  with dg have d: "isdigit d" by simp
  let ?s = "ds @ c # r"
  have t3: "take 1 (map tolower (take 3 ?s)) = [d]" and t8: "take 1 (map tolower (take 8 ?s)) = [d]"
    using isdigit_facts(4) [OF d] by (simp_all add: ds)
  have "map tolower (take 8 ?s) \<noteq> ''infinity''"
    using t8 isdigit_facts(5) [OF d] by (metis list.inject take_Suc_Cons take_0 One_nat_def)
  moreover have "map tolower (take 3 ?s) \<noteq> ''inf''"
    using t3 isdigit_facts(5) [OF d] by (metis list.inject take_Suc_Cons take_0 One_nat_def)
  moreover have "map tolower (take 3 ?s) \<noteq> ''nan''"
    using t3 isdigit_facts(6) [OF d] by (metis list.inject take_Suc_Cons take_0 One_nat_def)
  ultimately have sp: "parse_special ?s = None" by (simp add: parse_special_def)
  have "map tolower (take 2 ?s) \<noteq> ''0x''"
  proof (cases ds')
    case Nil
    have "tolower c \<noteq> CHR ''x''" using c(3) tolower_x [of c] by auto
    then show ?thesis by (simp add: ds Nil)
  next
    case (Cons e es)
    with dg ds have "isdigit e" by simp
    from isdigit_facts(4,7) [OF this] show ?thesis by (simp add: ds Cons)
  qed
  then have hx: "parse_hex ?s = None" by (simp add: parse_hex_def)
  have tw: "takeWhile isdigit ?s = ds" and dw: "dropWhile isdigit ?s = c # r"
    using dg c(1) by (simp_all add: takeWhile_append2 dropWhile_append2)
  have pm: "parse_mantissa isdigit ?s = Some (ds, [], length ds)"
    using ne c(2) by (simp add: parse_mantissa_def Let_def tw dw)
  have pe: "parse_exponent ''eE'' (c # r) = (0, 0)"
    using c(3) by (simp add: parse_exponent_def)
  have "\<exists>q. parse_decimal ?s = Some (q, length ds)"
    by (simp add: parse_decimal_def pm pe)
  with sp hx show ?thesis by (auto simp: parse_number_def)
qed

lemma digits_then_other_gives_zero:
  assumes "ds \<noteq> []" and "\<forall>d\<in>set ds. isdigit d"
    and "\<not> isdigit c" and "c \<noteq> CHR ''.''" and "c \<notin> set ''eExX''"
  shows "safeStringToDouble (ds @ c # r) = Finite 0"
proof -
  from assms(1) obtain d ds' where ds: "ds = d # ds'" by (cases ds) auto
  with assms(2) have d: "isdigit d" by simp
  from digits_then_other [OF assms, of r]
  obtain q where pn: "parse_number (ds @ c # r) = Some (Number q, length ds)" by blast
  have ws: "leading_space (ds @ c # r) = 0" and sg: "sign_length (ds @ c # r) = 0"
    using isdigit_facts(1,2,3) [OF d] by (simp_all add: leading_space_def sign_length_def ds)
  have "stod (ds @ c # r) =
          (if range_error q then Inl out_of_range else Inr (to_double q, length ds))"
    by (simp add: stod_def ws sg pn)
  then show ?thesis by (simp add: safeStringToDouble_def)
qed

text \<open>
  Claim C7, as the code has it. The Safe Numeric Converter is total and never raises:
  every exception of the library conversion gives \<open>0.0\<close>. The empty string gives \<open>0.0\<close>
  and \<^verbatim>\<open>4.5\<close> gives \<open>4.5\<close>. A string that has no decimal digit and does not begin, after
  white space and a sign, with the letters \<^verbatim>\<open>inf\<close> or \<^verbatim>\<open>nan\<close> in any letter case gives
  \<open>0.0\<close>, as \<^verbatim>\<open>abc\<close> does. A string of decimal digits followed by a character that is not
  a digit, a point or one of \<^verbatim>\<open>e\<close>, \<^verbatim>\<open>E\<close>, \<^verbatim>\<open>x\<close>, \<^verbatim>\<open>X\<close>, and by anything after it, gives \<open>0.0\<close>;
  so does \<^verbatim>\<open>4.5abc\<close>, of which the library converts the three characters \<^verbatim>\<open>4.5\<close>. What the
  library's conversion accepts to the end of the string is returned as it is: \<^verbatim>\<open>nan\<close> gives
  a NaN, \<^verbatim>\<open>inf\<close> gives the positive infinity and the hexadecimal \<^verbatim>\<open>0x1A\<close> gives \<open>26\<close>.
\<close>

theorem safeStringToDouble_policy:
  "safeStringToDouble [] = Finite 0 \<and>
   safeStringToDouble ''4.5'' = Finite (9 / 2) \<and>
   stod ''4.5abc'' = Inr (Finite (9 / 2), 3) \<and> safeStringToDouble ''4.5abc'' = Finite 0 \<and>
   stod ''abc'' = Inl invalid_argument \<and> safeStringToDouble ''abc'' = Finite 0 \<and>
   (\<forall>s. (\<forall>c\<in>set s. \<not> isdigit c) \<and> \<not> begins_inf_or_nan s \<longrightarrow>
        safeStringToDouble s = Finite 0) \<and>
   (\<forall>ds c r. ds \<noteq> [] \<and> (\<forall>d\<in>set ds. isdigit d) \<and>
        \<not> isdigit c \<and> c \<noteq> CHR ''.'' \<and> c \<notin> set ''eExX'' \<longrightarrow>
        safeStringToDouble (ds @ c # r) = Finite 0) \<and>
   (\<forall>s v n. stod s = Inr (v, n) \<and> n \<noteq> length s \<longrightarrow> safeStringToDouble s = Finite 0) \<and>
   (\<forall>s e. stod s = Inl e \<longrightarrow> safeStringToDouble s = Finite 0) \<and>
   (\<forall>s v. s \<noteq> [] \<and> stod s = Inr (v, length s) \<longrightarrow> safeStringToDouble s = v) \<and>
   safeStringToDouble ''nan'' = NaN \<and>
   safeStringToDouble ''inf'' = PosInf \<and>
   safeStringToDouble ''0x1A'' = Finite 26"
proof -
  have "safeStringToDouble [] = Finite 0" by (simp add: safeStringToDouble_def)
  moreover have "safeStringToDouble ''4.5abc'' = Finite 0"
    by (simp add: safeStringToDouble_def stod_45abc)
  moreover have "safeStringToDouble ''abc'' = Finite 0"
    by (simp add: safeStringToDouble_def stod_abc)
  moreover have "\<forall>s. (\<forall>c\<in>set s. \<not> isdigit c) \<and> \<not> begins_inf_or_nan s \<longrightarrow>
        safeStringToDouble s = Finite 0"
    using no_digit_gives_zero by blast
  moreover have "\<forall>ds c r. ds \<noteq> [] \<and> (\<forall>d\<in>set ds. isdigit d) \<and>
        \<not> isdigit c \<and> c \<noteq> CHR ''.'' \<and> c \<notin> set ''eExX'' \<longrightarrow>
        safeStringToDouble (ds @ c # r) = Finite 0"
    using digits_then_other_gives_zero by blast
  moreover have "\<forall>s v n. stod s = Inr (v, n) \<and> n \<noteq> length s \<longrightarrow>
        safeStringToDouble s = Finite 0"
    by (auto simp: safeStringToDouble_def)
  moreover have "\<forall>s e. stod s = Inl e \<longrightarrow> safeStringToDouble s = Finite 0"
    by (auto simp: safeStringToDouble_def)
  moreover have "\<forall>s v. s \<noteq> [] \<and> stod s = Inr (v, length s) \<longrightarrow> safeStringToDouble s = v"
    by (auto simp: safeStringToDouble_def)
  moreover have "safeStringToDouble ''nan'' = NaN"
    by (simp add: safeStringToDouble_def stod_nan)
  moreover have "safeStringToDouble ''inf'' = PosInf"
    by (simp add: safeStringToDouble_def stod_inf)
  moreover have "safeStringToDouble ''0x1A'' = Finite 26"
    by (simp add: safeStringToDouble_def stod_0x1A)
  ultimately show ?thesis
    using safeStringToDouble_45 stod_45abc stod_abc by blast
qed

theorem safeStringToDouble_policy_witness:
  "filter isdigit ''n/a'' = [] \<and> \<not> begins_inf_or_nan ''n/a'' \<and>
   safeStringToDouble ''n/a'' = Finite 0 \<and>
   filter isdigit ''4'' = ''4'' \<and>
   \<not> isdigit CHR ''/'' \<and> CHR ''/'' \<noteq> CHR ''.'' \<and> CHR ''/'' \<notin> set ''eExX'' \<and>
   safeStringToDouble (''4'' @ CHR ''/'' # ''5'') = Finite 0 \<and>
   stod ''4.5abc'' = Inr (Finite (9 / 2), 3) \<and> 3 \<noteq> length ''4.5abc'' \<and>
   safeStringToDouble ''4.5abc'' = Finite 0 \<and>
   stod ''abc'' = Inl invalid_argument \<and> safeStringToDouble ''abc'' = Finite 0 \<and>
   stod ''nan'' = Inr (NaN, length ''nan'') \<and> safeStringToDouble ''nan'' = NaN"
proof -
  have a: "filter isdigit ''n/a'' = [] \<and> \<not> begins_inf_or_nan ''n/a''"
    by (simp add: isdigit_def begins_inf_or_nan_def after_space_sign_def leading_space_def
        sign_length_def isspace_def tolower_def)
  then have a': "\<forall>c\<in>set ''n/a''. \<not> isdigit c" by (simp add: isdigit_def)
  have b: "filter isdigit ''4'' = ''4'' \<and>
       \<not> isdigit CHR ''/'' \<and> CHR ''/'' \<noteq> CHR ''.'' \<and> CHR ''/'' \<notin> set ''eExX''"
    by (simp add: isdigit_def)
  then have b': "''4'' \<noteq> [] \<and> (\<forall>d\<in>set ''4''. isdigit d)" by (simp add: isdigit_def)
  have c: "stod ''nan'' = Inr (NaN, length ''nan'')" by (simp add: stod_nan)
  note p = safeStringToDouble_policy
  from p a a' have 1: "safeStringToDouble ''n/a'' = Finite 0" by blast
  from p b b' have 2: "safeStringToDouble (''4'' @ CHR ''/'' # ''5'') = Finite 0" by blast
  from p have 3: "stod ''4.5abc'' = Inr (Finite (9 / 2), 3) \<and>
      safeStringToDouble ''4.5abc'' = Finite 0 \<and>
      stod ''abc'' = Inl invalid_argument \<and> safeStringToDouble ''abc'' = Finite 0 \<and>
      safeStringToDouble ''nan'' = NaN" by blast
  from a b c 1 2 3 show ?thesis by simp
qed

text \<open>
  The strings \<^verbatim>\<open>nan\<close> and \<^verbatim>\<open>inf\<close> have no digit in them, and the converter does not map
  them to \<open>0.0\<close> as claim C7 says of fully non-numeric input: the library accepts them
  as spellings of NaN and of infinity, and the converter returns those values.
\<close>

theorem safeStringToDouble_nan_inf_not_zero:
  "filter isdigit ''nan'' = [] \<and> safeStringToDouble ''nan'' = NaN \<and>
   safeStringToDouble ''nan'' \<noteq> Finite 0 \<and>
   filter isdigit ''inf'' = [] \<and> safeStringToDouble ''inf'' = PosInf \<and>
   safeStringToDouble ''inf'' \<noteq> Finite 0"
  by (simp add: safeStringToDouble_def stod_nan stod_inf isdigit_def)

text \<open>
  Claim C6, as the code has it. The rating \<^verbatim>\<open>4.5\<close> is rendered as four whole markers
  directly followed by the half marker (no space between them), a space and the literal
  fraction \<^verbatim>\<open>(4.5/5)\<close>; the ratings \<^verbatim>\<open>0\<close> and the empty string are rendered as the empty
  string; the rating \<^verbatim>\<open>5\<close> is rendered as five whole markers, no half marker, a space and
  \<^verbatim>\<open>(5/5)\<close>.
\<close>

theorem ratingToStars_examples:
  "ratingToStars ''4.5'' = Some (''****'' @ half_marker @ '' (4.5/5)'') \<and>
   ratingToStars ''0'' = Some [] \<and>
   ratingToStars [] = Some [] \<and>
   ratingToStars ''5'' = Some ''***** (5/5)''"
  by (simp add: ratingToStars_def safeStringToDouble_45 safeStringToDouble_0
      safeStringToDouble_5 truncate_rat_def floor_rat_numeral numeral_eq_Suc)

text \<open>
  The rendering of \<^verbatim>\<open>4.5\<close> is not the string of claim C6, which has a space between the
  four whole markers and the half marker.
\<close>

theorem ratingToStars_no_space_before_half:
  "ratingToStars ''4.5'' \<noteq> Some (''**** '' @ half_marker @ '' (4.5/5)'')"
  by (simp add: ratingToStars_def safeStringToDouble_45 truncate_rat_def floor_rat_numeral
      numeral_eq_Suc half_marker_def)

section \<open>Properties of the statistics\<close>

lemma statsLoop_rated:
  "ratedMovies (statsLoop ms st) = ratedMovies st + length (filter rated_positive ms)"
  by (induction ms arbitrary: st) (simp_all add: statsStep_def rated_positive_def Let_def)

lemma statsLoop_total:
  "totalRating (statsLoop ms st) =
   foldl double_add (totalRating st)
     (map (\<lambda>m. safeStringToDouble (rating m)) (filter rated_positive ms))"
  by (induction ms arbitrary: st) (simp_all add: statsStep_def rated_positive_def Let_def)

lemma rated_positive_samples:
  "rated_positive (sample_movie d ''4'')"
  "\<not> rated_positive (sample_movie d ''0'')"
  "\<not> rated_positive (sample_movie d [])"
  "\<not> rated_positive (sample_movie d ''-3'')"
  by (simp_all add: rated_positive_def sample_movie_def double_gt_def
      safeStringToDouble_4 safeStringToDouble_0 safeStringToDouble_minus_3)

text \<open>
  Claim C9, as the code has it. The statistics count as rated exactly the records whose
  rating field is not empty and converts to a value greater than zero; the total is the
  sum of those converted ratings and the average, present when there is a rated record,
  is that sum divided by that count. For the records with ratings \<^verbatim>\<open>4\<close>, \<^verbatim>\<open>0\<close> and the
  empty string the rated count is \<open>1\<close> and the average is \<open>4.0\<close>.
\<close>

theorem statistics_rated_average:
  "ratedMovies (computeStatistics ms) = length (filter rated_positive ms) \<and>
   totalRating (computeStatistics ms) = sum_ratings (filter rated_positive ms) \<and>
   avgRating (computeStatistics ms) =
     (if filter rated_positive ms = [] then None
      else Some (double_div_count (sum_ratings (filter rated_positive ms))
                   (length (filter rated_positive ms)))) \<and>
   ratedMovies (computeStatistics
      [sample_movie ''2024-01-03'' ''4'', sample_movie ''2024-01-02'' ''0'',
       sample_movie ''2024-01-01'' []]) = 1 \<and>
   avgRating (computeStatistics
      [sample_movie ''2024-01-03'' ''4'', sample_movie ''2024-01-02'' ''0'',
       sample_movie ''2024-01-01'' []]) = Some (Finite 4)"
proof -
  have count: "ratedMovies (computeStatistics ms) = length (filter rated_positive ms)" for ms
    by (simp add: computeStatistics_def statsLoop_rated)
  have total: "totalRating (computeStatistics ms) = sum_ratings (filter rated_positive ms)" for ms
    by (simp add: computeStatistics_def statsLoop_total sum_ratings_def)
  have avg: "avgRating (computeStatistics ms) =
     (if filter rated_positive ms = [] then None
      else Some (double_div_count (sum_ratings (filter rated_positive ms))
                   (length (filter rated_positive ms))))" for ms
    by (simp add: avgRating_def count total)
  define L where "L = [sample_movie ''2024-01-03'' ''4'', sample_movie ''2024-01-02'' ''0'',
       sample_movie ''2024-01-01'' []]"
  have sample: "filter rated_positive L = [sample_movie ''2024-01-03'' ''4'']"
    unfolding L_def by (simp add: rated_positive_samples)
  have sum: "sum_ratings [sample_movie ''2024-01-03'' ''4''] = Finite 4"
    by (simp add: sum_ratings_def sample_movie_def safeStringToDouble_4 to_double_exact)
  have c: "ratedMovies (computeStatistics L) = 1"
    unfolding count sample by simp
  have a: "avgRating (computeStatistics L) = Some (Finite 4)"
    unfolding avg sample by (simp add: sum to_double_exact)
  show ?thesis
    using count [of ms] total [of ms] avg [of ms] c a unfolding L_def by blast
qed

text \<open>
  A record with the rating \<^verbatim>\<open>-3\<close> has a rating that is not empty and converts to a nonzero
  value, and the statistics do not count it as rated.
\<close>

theorem statistics_negative_rating_not_counted:
  "rated_nonzero (sample_movie ''2024-01-01'' ''-3'') \<and>
   ratedMovies (computeStatistics [sample_movie ''2024-01-01'' ''-3'']) = 0"
proof -
  have "rated_nonzero (sample_movie ''2024-01-01'' ''-3'')"
    by (simp add: rated_nonzero_def sample_movie_def safeStringToDouble_minus_3)
  moreover have "ratedMovies (computeStatistics [sample_movie ''2024-01-01'' ''-3'']) = 0"
    unfolding computeStatistics_def statsLoop_rated by (simp add: rated_positive_samples)
  ultimately show ?thesis by blast
qed

section \<open>Properties of the ordering step\<close>















section \<open>Properties of the Diary Reader\<close>

lemma recordsOfLines_append:
  "recordsOfLines (ls @ ls') = recordsOfLines ls @ recordsOfLines ls'"
  by (simp add: recordsOfLines_def dataLines_def)

lemma recordsOfLines_Cons: "recordsOfLines (l # ls) = recordsOfLines [l] @ recordsOfLines ls"
  using recordsOfLines_append [of "[l]" ls] by simp

lemma recordsOfLines_single:
  "recordsOfLines [l] =
     (if stripCR l \<noteq> [] \<and> 2 \<le> length (parseCSVLine (stripCR l))
      then [movieOfFields (parseCSVLine (stripCR l))] else [])"
  by (simp add: recordsOfLines_def dataLines_def)

lemma readLine_header:
  assumes "isFirstLine st"
  shows "movies (readLine l st) = movies st" and "\<not> isFirstLine (readLine l st)"
    and "cerr (con (readLine l st)) = cerr (con st)"
  using assms by (simp_all add: readLine_def print_def Let_def)

lemma readLine_data:
  assumes "\<not> isFirstLine st"
  shows "movies (readLine l st) = movies st @ recordsOfLines [l]"
    and "\<not> isFirstLine (readLine l st)"
    and "cerr (con (readLine l st)) = cerr (con st)"
  using assms by (simp_all add: readLine_def print_def Let_def recordsOfLines_single)

lemma readLoop_data:
  "\<not> isFirstLine st \<Longrightarrow>
   movies (readLoop ls st) = movies st @ recordsOfLines ls \<and>
   cerr (con (readLoop ls st)) = cerr (con st)"
proof (induction ls arbitrary: st)
  case Nil
  show ?case by (simp add: recordsOfLines_def dataLines_def)
next
  case (Cons l ls)
  from Cons.IH [OF readLine_data(2) [OF Cons.prems, of l]] readLine_data [OF Cons.prems, of l]
  show ?case by (simp add: recordsOfLines_Cons [of l ls])
qed

lemma readLoop_from_start:
  assumes "isFirstLine st"
  shows "movies (readLoop ls st) = movies st @ recordsOfLines (tl ls)"
    and "cerr (con (readLoop ls st)) = cerr (con st)"
proof -
  have "movies (readLoop ls st) = movies st @ recordsOfLines (tl ls) \<and>
        cerr (con (readLoop ls st)) = cerr (con st)"
  proof (cases ls)
    case Nil
    then show ?thesis by (simp add: recordsOfLines_def dataLines_def)
  next
    case (Cons l ls')
    from readLoop_data [OF readLine_header(2) [OF assms, of l], of ls'] readLine_header [OF assms, of l]
    show ?thesis by (simp add: Cons)
  qed
  then show "movies (readLoop ls st) = movies st @ recordsOfLines (tl ls)"
    and "cerr (con (readLoop ls st)) = cerr (con st)" by simp_all
qed

lemma readLetterboxdCSV_readable:
  assumes "open_file fs filename = Some content"
  shows "fst (readLetterboxdCSV fs filename) = recordsOf content"
    and "cerr (snd (readLetterboxdCSV fs filename)) = []"
    and "\<exists>pre. cout (snd (readLetterboxdCSV fs filename)) =
           pre @ ''Successfully read '' @ show_nat (length (recordsOf content))
           @ '' movies from CSV'' @ endl @ endl"
  using assms
  by (simp_all add: readLetterboxdCSV_def Let_def print_def recordsOf_def readLoop_from_start
      del: show_nat.simps)

lemma readLetterboxdCSV_unreadable:
  assumes "open_file fs filename = None"
  shows "readLetterboxdCSV fs filename = ([], \<lparr>cout = [], cerr = open_error_message filename\<rparr>)"
  using assms by (simp add: readLetterboxdCSV_def)

lemma open_single_file: "open_file (single_file path content) path = Some content"
  by (simp add: open_file_def single_file_def)

lemma open_no_file: "open_file no_file path = None"
  by (simp add: open_file_def no_file_def)

lemma getlines_header_only:
  "getlines header_only = [''Date,Name,Year,Letterboxd URI,Rating,Rewatch,Tags,Watched Date'']"
  by (simp add: header_only_def endl_def getlines_def)

lemma getlines_one_record:
  "getlines one_record =
     [''Date,Name,Year,Letterboxd URI,Rating,Rewatch,Tags,Watched Date'', ''2024-01-01,Alien,1979'']"
  by (simp add: one_record_def header_only_def endl_def getlines_def)

lemma getlines_one_record_one_malformed:
  "getlines one_record_one_malformed =
     [''Date,Name,Year,Letterboxd URI,Rating,Rewatch,Tags,Watched Date'', ''2024-01-01,Alien,1979'',
      ''not a record'']"
  by (simp add: one_record_one_malformed_def one_record_def header_only_def endl_def getlines_def)

lemma getlines_nameless_record:
  "getlines nameless_record =
     [''Date,Name,Year,Letterboxd URI,Rating,Rewatch,Tags,Watched Date'', ''2024-01-01,,1979'']"
  by (simp add: nameless_record_def header_only_def endl_def getlines_def)

lemma parse_alien: "parseCSVLine ''2024-01-01,Alien,1979'' = [''2024-01-01'', ''Alien'', ''1979'']"
  by (simp add: parseCSVLine_def trim_def trim_chars_def substr_def)

lemma parse_not_a_record: "parseCSVLine ''not a record'' = [''not a record'']"
  by (simp add: parseCSVLine_def trim_def trim_chars_def substr_def)

lemma parse_nameless: "parseCSVLine ''2024-01-01,,1979'' = [''2024-01-01'', [], ''1979'']"
  by (simp add: parseCSVLine_def trim_def trim_chars_def substr_def)

lemma read_one_record:
  "readLetterboxdCSV (single_file ''diary.csv'' one_record) ''diary.csv'' =
     ([\<lparr>date = ''2024-01-01'', name = ''Alien'', year = ''1979'', letterboxdURI = [],
        rating = [], rewatch = [], tags = [], watchedDate = []\<rparr>],
      \<lparr>cout = ''CSV Header: Date,Name,Year,Letterboxd URI,Rating,Rewatch,Tags,Watched Date''
               @ endl @ endl @ ''First data line has 3 fields'' @ endl @ endl
               @ ''Successfully read 1 movies from CSV'' @ endl @ endl,
       cerr = []\<rparr>)"
  by (simp add: readLetterboxdCSV_def open_single_file getlines_one_record readLine_def
      print_def stripCR_def parse_alien movieOfFields_def field_or_empty_def Let_def)

lemma read_one_record_one_malformed:
  "readLetterboxdCSV (single_file ''diary.csv'' one_record_one_malformed) ''diary.csv'' =
     ([\<lparr>date = ''2024-01-01'', name = ''Alien'', year = ''1979'', letterboxdURI = [],
        rating = [], rewatch = [], tags = [], watchedDate = []\<rparr>],
      \<lparr>cout = ''CSV Header: Date,Name,Year,Letterboxd URI,Rating,Rewatch,Tags,Watched Date''
               @ endl @ endl @ ''First data line has 3 fields'' @ endl @ endl
               @ ''Successfully read 1 movies from CSV'' @ endl @ endl,
       cerr = []\<rparr>)"
  by (simp add: readLetterboxdCSV_def open_single_file getlines_one_record_one_malformed
      readLine_def print_def stripCR_def parse_alien parse_not_a_record movieOfFields_def
      field_or_empty_def Let_def)

lemma recordsOf_one_record:
  "recordsOf one_record =
     [\<lparr>date = ''2024-01-01'', name = ''Alien'', year = ''1979'', letterboxdURI = [],
       rating = [], rewatch = [], tags = [], watchedDate = []\<rparr>]"
  by (simp add: recordsOf_def recordsOfLines_def dataLines_def getlines_one_record stripCR_def
      parse_alien movieOfFields_def field_or_empty_def)

lemma recordsOf_nameless_record:
  "recordsOf nameless_record =
     [\<lparr>date = ''2024-01-01'', name = [], year = ''1979'', letterboxdURI = [],
       rating = [], rewatch = [], tags = [], watchedDate = []\<rparr>]"
  by (simp add: recordsOf_def recordsOfLines_def dataLines_def getlines_nameless_record stripCR_def
      parse_nameless movieOfFields_def field_or_empty_def)

lemma readLine_later:
  assumes "\<not> isFirstLine st" and "2 \<le> lineNumber st"
  shows "con (readLine l st) = con st" and "\<not> isFirstLine (readLine l st)"
    and "2 \<le> lineNumber (readLine l st)"
  using assms by (simp_all add: readLine_def Let_def)

lemma readLoop_later:
  "\<not> isFirstLine st \<Longrightarrow> 2 \<le> lineNumber st \<Longrightarrow> con (readLoop ls st) = con st"
proof (induction ls arbitrary: st)
  case Nil
  show ?case by simp
next
  case (Cons l ls)
  from Cons.IH [OF readLine_later(2,3) [OF Cons.prems]] readLine_later(1) [OF Cons.prems]
  show ?case by simp
qed

lemma readLoop_console:
  "con (readLoop ls \<lparr>movies = [], lineNumber = 0, isFirstLine = True,
                     con = \<lparr>cout = [], cerr = []\<rparr>\<rparr>) =
   \<lparr>cout = (case ls of
              [] \<Rightarrow> []
            | h # rest \<Rightarrow>
                ''CSV Header: '' @ stripCR h @ endl @ endl @
                (case rest of
                   [] \<Rightarrow> []
                 | l # _ \<Rightarrow>
                     if stripCR l = [] then []
                     else ''First data line has '' @ show_nat (length (parseCSVLine (stripCR l)))
                          @ '' fields'' @ endl @ endl)),
    cerr = []\<rparr>"
proof (cases ls)
  case Nil
  then show ?thesis by simp
next
  case (Cons h rest)
  show ?thesis
  proof (cases rest)
    case Nil
    with Cons show ?thesis by (simp add: readLine_def print_def Let_def)
  next
    case inner: (Cons l rest')
    let ?st2 = "readLine l (readLine h \<lparr>movies = [], lineNumber = 0, isFirstLine = True,
                     con = \<lparr>cout = [], cerr = []\<rparr>\<rparr>)"
    have "\<not> isFirstLine ?st2" and "2 \<le> lineNumber ?st2"
      by (simp_all add: readLine_def print_def Let_def)
    then have "con (readLoop rest' ?st2) = con ?st2"
      by (rule readLoop_later)
    then show ?thesis
      unfolding Cons inner by (simp add: readLine_def print_def Let_def del: show_nat.simps)
  qed
qed

lemma readLetterboxdCSV_result:
  assumes "open_file fs filename = Some content"
  shows "readLetterboxdCSV fs filename =
           (recordsOf content, \<lparr>cout = readerOutput content, cerr = []\<rparr>)"
proof -
  let ?st = "readLoop (getlines content) \<lparr>movies = [], lineNumber = 0, isFirstLine = True,
                     con = \<lparr>cout = [], cerr = []\<rparr>\<rparr>"
  have m: "movies ?st = recordsOf content"
    by (simp add: readLoop_from_start recordsOf_def)
  show ?thesis
    using assms
    by (simp add: readLetterboxdCSV_def Let_def print_def m readLoop_console readerOutput_def
        del: show_nat.simps)
qed

text \<open>
  Claim C2, as the code has it. For every readable source the reader returns the ordered
  sequence of records alone: one record for each data line with at least two fields. On
  standard output it prints the header line, the number of fields of the second line of
  the source when that line is not empty, and the number of records read; it prints
  nothing on the error stream. It neither returns nor prints a count of the skipped
  lines: a line with fewer than two fields after the second line of the source changes
  neither the returned sequence nor the output.
\<close>

theorem readLetterboxdCSV_returns_records_only:
  assumes "open_file fs filename = Some content"
  shows "readLetterboxdCSV fs filename =
           (recordsOf content, \<lparr>cout = readerOutput content, cerr = []\<rparr>) \<and>
         (\<forall>h l2 before l after fs' filename' content'.
            getlines content = h # l2 # before @ l # after \<and>
            length (parseCSVLine (stripCR l)) < 2 \<and>
            open_file fs' filename' = Some content' \<and>
            getlines content' = h # l2 # before @ after \<longrightarrow>
            readLetterboxdCSV fs' filename' = readLetterboxdCSV fs filename)"
proof (intro conjI allI impI)
  show "readLetterboxdCSV fs filename =
           (recordsOf content, \<lparr>cout = readerOutput content, cerr = []\<rparr>)"
    by (rule readLetterboxdCSV_result [OF assms])
next
  fix h l2 before l after fs' filename' content'
  assume a: "getlines content = h # l2 # before @ l # after \<and>
            length (parseCSVLine (stripCR l)) < 2 \<and>
            open_file fs' filename' = Some content' \<and>
            getlines content' = h # l2 # before @ after"
  then have "recordsOfLines [l] = []"
    by (simp add: recordsOfLines_single)
  then have "recordsOfLines (l2 # before @ l # after) = recordsOfLines (l2 # before @ after)"
    using recordsOfLines_Cons [of l after] recordsOfLines_Cons [of l2 "before @ l # after"]
      recordsOfLines_Cons [of l2 "before @ after"]
    by (simp add: recordsOfLines_append)
  with a have r: "recordsOf content' = recordsOf content"
    by (simp add: recordsOf_def)
  with a have "readerOutput content' = readerOutput content"
    by (simp add: readerOutput_def del: show_nat.simps)
  with r a show "readLetterboxdCSV fs' filename' = readLetterboxdCSV fs filename"
    by (simp add: readLetterboxdCSV_result [OF assms] readLetterboxdCSV_result)
qed

theorem readLetterboxdCSV_returns_records_only_witness:
  "open_file (single_file ''diary.csv'' one_record_one_malformed) ''diary.csv'' =
     Some one_record_one_malformed \<and>
   getlines one_record_one_malformed =
     ''Date,Name,Year,Letterboxd URI,Rating,Rewatch,Tags,Watched Date''
     # ''2024-01-01,Alien,1979'' # [] @ ''not a record'' # [] \<and>
   length (parseCSVLine (stripCR ''not a record'')) < 2 \<and>
   open_file (single_file ''diary.csv'' one_record) ''diary.csv'' = Some one_record \<and>
   getlines one_record =
     ''Date,Name,Year,Letterboxd URI,Rating,Rewatch,Tags,Watched Date''
     # ''2024-01-01,Alien,1979'' # [] @ [] \<and>
   readLetterboxdCSV (single_file ''diary.csv'' one_record) ''diary.csv'' =
   readLetterboxdCSV (single_file ''diary.csv'' one_record_one_malformed) ''diary.csv'' \<and>
   readLetterboxdCSV (single_file ''diary.csv'' one_record_one_malformed) ''diary.csv'' =
     ([\<lparr>date = ''2024-01-01'', name = ''Alien'', year = ''1979'', letterboxdURI = [],
        rating = [], rewatch = [], tags = [], watchedDate = []\<rparr>],
      \<lparr>cout = ''CSV Header: Date,Name,Year,Letterboxd URI,Rating,Rewatch,Tags,Watched Date''
               @ endl @ endl @ ''First data line has 3 fields'' @ endl @ endl
               @ ''Successfully read 1 movies from CSV'' @ endl @ endl,
       cerr = []\<rparr>)"
  using readLetterboxdCSV_returns_records_only
    [OF open_single_file, of "''diary.csv''" one_record_one_malformed]
  by (simp add: open_single_file getlines_one_record getlines_one_record_one_malformed
      stripCR_def parse_not_a_record read_one_record read_one_record_one_malformed)

text \<open>
  Two readable sources, one with no malformed line and one with one, for which the
  reader returns the same records and writes the same output: nothing the caller
  receives, and nothing on the console, is the count of skipped lines.
\<close>

theorem readLetterboxdCSV_no_skipped_count:
  "readLetterboxdCSV (single_file ''diary.csv'' one_record) ''diary.csv'' =
   readLetterboxdCSV (single_file ''diary.csv'' one_record_one_malformed) ''diary.csv'' \<and>
   malformedLines one_record = 0 \<and>
   malformedLines one_record_one_malformed = 1"
proof -
  have "malformedLines one_record = 0"
    by (simp add: malformedLines_def getlines_one_record dataLines_def stripCR_def parse_alien)
  moreover have "malformedLines one_record_one_malformed = 1"
    by (simp add: malformedLines_def getlines_one_record_one_malformed dataLines_def stripCR_def
        parse_alien parse_not_a_record)
  ultimately show ?thesis
    by (simp add: read_one_record read_one_record_one_malformed)
qed

text \<open>
  Claim C3, as the code has it. When the source cannot be opened the reader returns an
  empty record sequence and writes its \<^verbatim>\<open>Error: Could not open file\<close> message to the
  error stream, and nothing to standard output. For a readable source it writes nothing
  to the error stream, and when the source has no line after the header it returns the
  empty sequence too. The difference is on the console; the value returned to the caller
  carries no signal.
\<close>

theorem readLetterboxdCSV_unavailable_source:
  "(open_file fs filename = None \<longrightarrow>
      readLetterboxdCSV fs filename = ([], \<lparr>cout = [], cerr = open_error_message filename\<rparr>)) \<and>
   open_error_message filename \<noteq> [] \<and>
   (\<forall>content. open_file fs filename = Some content \<longrightarrow>
      cerr (snd (readLetterboxdCSV fs filename)) = [] \<and>
      (length (getlines content) \<le> 1 \<longrightarrow> fst (readLetterboxdCSV fs filename) = []))"
proof (intro conjI impI allI)
  assume "open_file fs filename = None"
  then show "readLetterboxdCSV fs filename = ([], \<lparr>cout = [], cerr = open_error_message filename\<rparr>)"
    by (rule readLetterboxdCSV_unreadable)
next
  show "open_error_message filename \<noteq> []"
    by (simp add: open_error_message_def)
next
  fix content assume "open_file fs filename = Some content"
  then show "cerr (snd (readLetterboxdCSV fs filename)) = []"
    by (rule readLetterboxdCSV_readable(2))
next
  fix content
  assume readable: "open_file fs filename = Some content" and "length (getlines content) \<le> 1"
  then have "tl (getlines content) = []"
    by (cases "getlines content") simp_all
  then show "fst (readLetterboxdCSV fs filename) = []"
    by (simp add: readLetterboxdCSV_readable(1) [OF readable] recordsOf_def recordsOfLines_def
        dataLines_def)
qed

theorem readLetterboxdCSV_unavailable_source_witness:
  "open_file no_file ''diary.csv'' = None \<and>
   readLetterboxdCSV no_file ''diary.csv'' =
     ([], \<lparr>cout = [], cerr = open_error_message ''diary.csv''\<rparr>) \<and>
   open_file (single_file ''diary.csv'' header_only) ''diary.csv'' = Some header_only \<and>
   length (getlines header_only) \<le> 1 \<and>
   cerr (snd (readLetterboxdCSV (single_file ''diary.csv'' header_only) ''diary.csv'')) = [] \<and>
   fst (readLetterboxdCSV (single_file ''diary.csv'' header_only) ''diary.csv'') = []"
  using readLetterboxdCSV_unavailable_source [of no_file "''diary.csv''"]
    readLetterboxdCSV_unavailable_source [of "single_file ''diary.csv'' header_only" "''diary.csv''"]
  by (simp add: open_no_file open_single_file getlines_header_only)

text \<open>
  A source that cannot be opened and a readable source with only a header line: the
  reader returns the same value to its caller for both, and \<^verbatim>\<open>main\<close> answers both with the
  same text.
\<close>

theorem readLetterboxdCSV_same_return_when_unavailable:
  "open_file no_file ''diary.csv'' = None \<and>
   open_file (single_file ''diary.csv'' header_only) ''diary.csv'' = Some header_only \<and>
   fst (readLetterboxdCSV no_file ''diary.csv'') =
   fst (readLetterboxdCSV (single_file ''diary.csv'' header_only) ''diary.csv'') \<and>
   mainAfterRead (fst (readLetterboxdCSV no_file ''diary.csv'')) =
   mainAfterRead (fst (readLetterboxdCSV (single_file ''diary.csv'' header_only) ''diary.csv''))"
proof -
  have "fst (readLetterboxdCSV no_file ''diary.csv'') = []"
    by (simp add: readLetterboxdCSV_unreadable open_no_file)
  moreover have "fst (readLetterboxdCSV (single_file ''diary.csv'' header_only) ''diary.csv'') = []"
    by (simp add: readLetterboxdCSV_readable(1) [OF open_single_file] recordsOf_def
        recordsOfLines_def dataLines_def getlines_header_only)
  ultimately show ?thesis
    by (simp add: open_no_file open_single_file)
qed

text \<open>
  Claim C4, as the code has it. Every record the reader admits comes from a data line
  with at least two fields and has the second field of that line, which may be empty, as
  its name. A line whose field sequence has fewer than two fields produces no record and
  the lines after it are still processed: the reader returns what it returns for the
  source without that line.
\<close>

theorem readLetterboxdCSV_admits_two_fields:
  assumes "open_file fs filename = Some content"
  shows "(\<forall>m\<in>set (fst (readLetterboxdCSV fs filename)).
            \<exists>l\<in>set (dataLines (tl (getlines content))).
              2 \<le> length (parseCSVLine l) \<and> m = movieOfFields (parseCSVLine l) \<and>
              name m = parseCSVLine l ! 1) \<and>
         (\<forall>h before l after fs' filename' content'.
            getlines content = h # before @ l # after \<and>
            length (parseCSVLine (stripCR l)) < 2 \<and>
            open_file fs' filename' = Some content' \<and>
            getlines content' = h # before @ after \<longrightarrow>
            fst (readLetterboxdCSV fs filename) = fst (readLetterboxdCSV fs' filename'))"
proof (intro conjI ballI allI impI)
  fix m assume "m \<in> set (fst (readLetterboxdCSV fs filename))"
  then have "m \<in> set (recordsOf content)"
    by (simp add: readLetterboxdCSV_readable(1) [OF assms])
  then obtain l where "l \<in> set (dataLines (tl (getlines content)))"
    and "2 \<le> length (parseCSVLine l)" and "m = movieOfFields (parseCSVLine l)"
    by (auto simp: recordsOf_def recordsOfLines_def)
  moreover from this have "name m = parseCSVLine l ! 1"
    by (simp add: movieOfFields_def field_or_empty_def)
  ultimately show "\<exists>l\<in>set (dataLines (tl (getlines content))).
      2 \<le> length (parseCSVLine l) \<and> m = movieOfFields (parseCSVLine l) \<and>
      name m = parseCSVLine l ! 1"
    by blast
next
  fix h before l after fs' filename' content'
  assume a: "getlines content = h # before @ l # after \<and>
             length (parseCSVLine (stripCR l)) < 2 \<and>
             open_file fs' filename' = Some content' \<and>
             getlines content' = h # before @ after"
  then have "recordsOfLines [l] = []"
    by (simp add: recordsOfLines_single)
  then have "recordsOfLines (before @ l # after) = recordsOfLines (before @ after)"
    using recordsOfLines_Cons [of l after] by (simp add: recordsOfLines_append)
  with a have "recordsOf content = recordsOf content'"
    by (simp add: recordsOf_def)
  with a show "fst (readLetterboxdCSV fs filename) = fst (readLetterboxdCSV fs' filename')"
    by (simp add: readLetterboxdCSV_readable(1) [OF assms] readLetterboxdCSV_readable(1))
qed

theorem readLetterboxdCSV_admits_two_fields_witness:
  "open_file (single_file ''diary.csv'' one_record_one_malformed) ''diary.csv'' =
     Some one_record_one_malformed \<and>
   getlines one_record_one_malformed =
     ''Date,Name,Year,Letterboxd URI,Rating,Rewatch,Tags,Watched Date''
     # [''2024-01-01,Alien,1979''] @ ''not a record'' # [] \<and>
   length (parseCSVLine (stripCR ''not a record'')) < 2 \<and>
   open_file (single_file ''diary.csv'' one_record) ''diary.csv'' = Some one_record \<and>
   getlines one_record =
     ''Date,Name,Year,Letterboxd URI,Rating,Rewatch,Tags,Watched Date''
     # [''2024-01-01,Alien,1979''] @ [] \<and>
   fst (readLetterboxdCSV (single_file ''diary.csv'' one_record_one_malformed) ''diary.csv'') =
   fst (readLetterboxdCSV (single_file ''diary.csv'' one_record) ''diary.csv'') \<and>
   ''2024-01-01,Alien,1979'' \<in> set (dataLines (tl (getlines one_record_one_malformed))) \<and>
   2 \<le> length (parseCSVLine ''2024-01-01,Alien,1979'') \<and>
   movieOfFields (parseCSVLine ''2024-01-01,Alien,1979'')
     \<in> set (fst (readLetterboxdCSV (single_file ''diary.csv'' one_record_one_malformed) ''diary.csv''))"
  using readLetterboxdCSV_admits_two_fields
    [OF open_single_file, of "''diary.csv''" one_record_one_malformed]
  by (simp add: open_single_file getlines_one_record getlines_one_record_one_malformed
      stripCR_def parse_not_a_record parse_alien dataLines_def read_one_record
      read_one_record_one_malformed movieOfFields_def field_or_empty_def)

text \<open>
  A data line with an empty second field has two fields or more, and the reader admits
  the record: its name is the empty string.
\<close>

theorem readLetterboxdCSV_admits_empty_name:
  "fst (readLetterboxdCSV (single_file ''diary.csv'' nameless_record) ''diary.csv'') =
     [\<lparr>date = ''2024-01-01'', name = [], year = ''1979'', letterboxdURI = [],
       rating = [], rewatch = [], tags = [], watchedDate = []\<rparr>] \<and>
   name \<lparr>date = ''2024-01-01'', name = [], year = ''1979'', letterboxdURI = [],
       rating = [], rewatch = [], tags = [], watchedDate = []\<rparr> = []"
  by (simp add: readLetterboxdCSV_readable(1) [OF open_single_file] recordsOf_nameless_record)

end
